theory Spec2Isabelle
  imports Main "HOL-Library.Sublist"
begin

section \<open>Python values, exceptions and strings\<close>

text \<open>
  The callable functions of the assistant return either a text or Python's \<open>None\<close>.
  An exception that leaves a function is the left summand of its result.
  Strings are modelled as lists of 8-bit characters; \<open>str.lower\<close> is modelled on the
  ASCII letters, which is exact for ASCII input.
\<close>

datatype pyval = PyNone | Str string

datatype exn =
    RequestException
  | KeyError
  | TypeError
  | IndexError
  | AttributeError
  | NameError string
  | RecursionError
  | SipError

definition lower_char :: "char \<Rightarrow> char" where
  "lower_char c =
     (let n = (of_char c :: nat) in if 65 \<le> n \<and> n \<le> 90 then char_of (n + 32) else c)"

definition lower :: "string \<Rightarrow> string" where
  "lower s = map lower_char s"

text \<open>Python's \<open>k in s\<close> on strings: \<open>k\<close> occurs in \<open>s\<close> as a contiguous block.\<close>

fun str_in :: "string \<Rightarrow> string \<Rightarrow> bool" where
  "str_in k [] = (k = [])"
| "str_in k (c # cs) = (prefix k (c # cs) \<or> str_in k cs)"

text \<open>An f-string prints an unset environment variable as the text \<open>None\<close>.\<close>

definition fstr :: "string option \<Rightarrow> string" where
  "fstr v = (case v of None \<Rightarrow> ''None'' | Some s \<Rightarrow> s)"

section \<open>Regular expressions as used by \<open>re.match\<close>\<close>

text \<open>
  The only pattern of the repository is \<open>[^@]+@[^@]+\.[^@]+\<close>: a sequence of items, each a
  single-character atom or such an atom under \<open>+\<close>. \<open>End\<close> is the anchor \<open>$\<close>
  (end of the string, or just before a final newline). \<open>re.match\<close> tries the pattern at
  the start of the string and backtracks over the greedy repetitions; it returns a match
  object iff some prefix of the string matches.
\<close>

datatype atom = Lit char | NotLit char

datatype item = One atom | Many atom | End

fun accepts :: "atom \<Rightarrow> char \<Rightarrow> bool" where
  "accepts (Lit a) c = (c = a)"
| "accepts (NotLit a) c = (c \<noteq> a)"

fun re_match :: "item list \<Rightarrow> string \<Rightarrow> bool" where
  "re_match [] s = True"
| "re_match (End # p) s = ((s = [] \<or> s = [CHR 0x0A]) \<and> re_match p s)"
| "re_match (One a # p) [] = False"
| "re_match (One a # p) (c # cs) = (accepts a c \<and> re_match p cs)"
| "re_match (Many a # p) [] = False"
| "re_match (Many a # p) (c # cs) =
     (accepts a c \<and> (re_match (Many a # p) cs \<or> re_match p cs))"

definition email_pattern :: "item list" where
  "email_pattern =
     [Many (NotLit CHR ''@''), One (Lit CHR ''@''), Many (NotLit CHR ''@''),
      One (Lit CHR ''.''), Many (NotLit CHR ''@'')]"

text \<open>The pattern as the specification writes it, anchored at both ends.\<close>

definition email_pattern_anchored :: "item list" where
  "email_pattern_anchored = email_pattern @ [End]"

section \<open>JSON values and the Python operations applied to them\<close>

datatype json =
    JNull
  | JBool bool
  | JNum int
  | JStr string
  | JArr "json list"
  | JObj "(string \<times> json) list"

text \<open>
  Objects keep their members in document order and are assumed to have distinct keys.
  Each operation raises what Python raises on a value of the wrong shape.
\<close>

fun truthy :: "json \<Rightarrow> bool" where
  "truthy JNull = False"
| "truthy (JBool b) = b"
| "truthy (JNum n) = (n \<noteq> 0)"
| "truthy (JStr s) = (s \<noteq> [])"
| "truthy (JArr xs) = (xs \<noteq> [])"
| "truthy (JObj kvs) = (kvs \<noteq> [])"

text \<open>\<open>x[k]\<close> for a string key \<open>k\<close>.\<close>

fun getitem_key :: "json \<Rightarrow> string \<Rightarrow> exn + json" where
  "getitem_key (JObj kvs) k = (case map_of kvs k of None \<Rightarrow> Inl KeyError | Some v \<Rightarrow> Inr v)"
| "getitem_key _ k = Inl TypeError"

text \<open>\<open>x[0]\<close>.\<close>

fun getitem_0 :: "json \<Rightarrow> exn + json" where
  "getitem_0 (JArr []) = Inl IndexError"
| "getitem_0 (JArr (x # xs)) = Inr x"
| "getitem_0 (JStr []) = Inl IndexError"
| "getitem_0 (JStr (c # cs)) = Inr (JStr [c])"
| "getitem_0 (JObj kvs) = Inl KeyError"
| "getitem_0 _ = Inl TypeError"

text \<open>\<open>list(x.keys())[0]\<close> for a truthy \<open>x\<close>.\<close>

fun first_key :: "json \<Rightarrow> exn + string" where
  "first_key (JObj []) = Inl IndexError"
| "first_key (JObj (kv # kvs)) = Inr (fst kv)"
| "first_key _ = Inl AttributeError"

text \<open>\<open>x.get(k, default)\<close>.\<close>

fun py_get :: "json \<Rightarrow> string \<Rightarrow> json \<Rightarrow> exn + json" where
  "py_get (JObj kvs) k d = Inr (case map_of kvs k of None \<Rightarrow> d | Some v \<Rightarrow> v)"
| "py_get _ k d = Inl AttributeError"

text \<open>The elements a \<open>for\<close> loop over \<open>x\<close> visits.\<close>

fun py_iter :: "json \<Rightarrow> exn + json list" where
  "py_iter (JArr xs) = Inr xs"
| "py_iter (JObj kvs) = Inr (map (\<lambda>kv. JStr (fst kv)) kvs)"
| "py_iter (JStr s) = Inr (map (\<lambda>c. JStr [c]) s)"
| "py_iter _ = Inl TypeError"

text \<open>\<open>k in x\<close> for a string \<open>k\<close>.\<close>

fun py_in :: "string \<Rightarrow> json \<Rightarrow> exn + bool" where
  "py_in k (JArr xs) = Inr (JStr k \<in> set xs)"
| "py_in k (JObj kvs) = Inr (k \<in> set (map fst kvs))"
| "py_in k (JStr s) = Inr (str_in k s)"
| "py_in k _ = Inl TypeError"

definition bind :: "exn + 'a \<Rightarrow> ('a \<Rightarrow> exn + 'b) \<Rightarrow> exn + 'b" where
  "bind r f = (case r of Inl e \<Rightarrow> Inl e | Inr x \<Rightarrow> f x)"

section \<open>The HTTP boundary\<close>

text \<open>
  A call of \<open>requests.get/post/put\<close> either raises a \<open>RequestException\<close> (no connection,
  timeout, invalid URL) or returns a response with a status code and a body. For
  \<open>response.json()\<close> a body is of one of three kinds: it is empty or no JSON text; it is
  a JSON text nested so deeply that the decoder exceeds the recursion limit; or it
  decodes to a value. The world decides what the server does with each request.
\<close>

datatype body = NotJson | TooDeep | Json json

datatype http_method = GET | POST | PUT

record request =
  rmethod :: http_method
  rurl :: "string option"
  rparams :: "(string \<times> json) list"
  rheaders :: "(string \<times> string) list"
  rjson :: "json option"

datatype http_outcome = Raises | Response int body

text \<open>
  What the code reads from its surroundings: the environment variables, which URLs
  \<open>requests\<close> can use (a URL without scheme or host is refused before anything is sent),
  what the server does with each request, whether the outbound call request of the
  real-time platform raises,
  \<open>datetime.now()\<close> (microseconds on the local time line), the conversion
  \<open>int(d.timestamp() * 1000)\<close> of such a time, how an f-string prints a decoded JSON
  value, and the name of the room.
\<close>

record world =
  getenv :: "string \<Rightarrow> string option"
  url_ok :: "string \<Rightarrow> bool"
  http :: "request \<Rightarrow> http_outcome"
  sip_raises :: bool
  now :: int
  timestamp_ms :: "int \<Rightarrow> int"
  py_str :: "json \<Rightarrow> string"
  room_name :: string

text \<open>\<open>response.raise_for_status()\<close> raises \<open>HTTPError\<close>, a \<open>RequestException\<close>, exactly
  for the client and server error codes.\<close>

definition raise_for_status :: "int \<Rightarrow> bool" where
  "raise_for_status status = (400 \<le> status \<and> status < 600)"

text \<open>\<open>response.json()\<close>. The decoding error that it raises for a body that is no JSON text
  derives from \<open>RequestException\<close>; the \<open>RecursionError\<close> of the decoder does not.\<close>

definition response_json :: "body \<Rightarrow> exn + json" where
  "response_json b =
     (case b of NotJson \<Rightarrow> Inl RequestException | TooDeep \<Rightarrow> Inl RecursionError | Json j \<Rightarrow> Inr j)"

text \<open>The responses that carry no body, whatever the server sends: the client library
  reads none for the informational codes, 204 and 304.\<close>

definition no_body_status :: "int \<Rightarrow> bool" where
  "no_body_status status = ((100 \<le> status \<and> status < 200) \<or> status = 204 \<or> status = 304)"

text \<open>What a call of \<open>requests.get/post/put\<close> gives: a missing URL and a URL that \<open>requests\<close>
  cannot use raise before anything is sent; otherwise the server decides.\<close>

definition exchange :: "world \<Rightarrow> request \<Rightarrow> http_outcome" where
  "exchange w req =
     (case rurl req of
        None \<Rightarrow> Raises
      | Some u \<Rightarrow>
          if \<not> url_ok w u then Raises
          else (case http w req of
                  Raises \<Rightarrow> Raises
                | Response status b \<Rightarrow>
                    Response status (if no_body_status status then NotJson else b)))"

text \<open>The result of a callable function together with the HTTP calls it made, in order.\<close>

type_synonym outcome = "(exn + pyval) \<times> request list"

text \<open>\<open>requests.get/post/put\<close> followed by \<open>response.raise_for_status()\<close>.\<close>

definition send :: "world \<Rightarrow> request \<Rightarrow> exn + body" where
  "send w req =
     (case exchange w req of
        Raises \<Rightarrow> Inl RequestException
      | Response status body \<Rightarrow>
          if raise_for_status status then Inl RequestException else Inr body)"

text \<open>\<open>try: ... except requests.RequestException: return fallback\<close>; any other exception
  leaves the function.\<close>

definition except_request_exception :: "exn + pyval \<Rightarrow> pyval \<Rightarrow> exn + pyval" where
  "except_request_exception r fallback =
     (case r of Inl RequestException \<Rightarrow> Inr fallback | _ \<Rightarrow> r)"

definition bearer_headers :: "world \<Rightarrow> (string \<times> string) list" where
  "bearer_headers w =
     [(''Authorization'', ''Bearer '' @ fstr (getenv w ''API_TOKEN'')),
      (''Content-Type'', ''application/json'')]"

definition json_of_env :: "string option \<Rightarrow> json" where
  "json_of_env v = (case v of None \<Rightarrow> JNull | Some s \<Rightarrow> JStr s)"

section \<open>The callable functions (\<open>DentalAssistantFunction\<close>)\<close>




definition book_appointment :: "world \<Rightarrow> string \<Rightarrow> string \<Rightarrow> outcome" where
  "book_appointment w email name =
     (if \<not> re_match email_pattern email then
        (Inr (Str ''The email address seems incorrect. Please provide a valid one.''), [])
      else
        let req = \<lparr>rmethod = POST, rurl = getenv w ''WEBHOOK_URL'', rparams = [],
                   rheaders = [(''Content-Type'', ''application/json'')],
                   rjson = Some (JObj [(''email'', JStr email), (''name'', JStr name)])\<rparr>
        in (except_request_exception
              (bind (send w req) (\<lambda>body.
               Inr (Str (''Dental appointment booking link sent to '' @ email
                         @ ''. Please check your email.''))))
              (Str ''There was an error booking your dental appointment. Please try again later.''),
            [req]))"


text \<open>\<open>timedelta\<close> values, in microseconds.\<close>

definition hours :: "int \<Rightarrow> int" where
  "hours n = n * 3600000000"

definition days :: "int \<Rightarrow> int" where
  "days n = n * 86400000000"

definition slot_window :: "world \<Rightarrow> string \<Rightarrow> int \<times> int" where
  "slot_window w urgency =
     (let current_time = now w in
      if urgency = ''emergency'' then (current_time, current_time + hours 24)
      else let start_date = current_time + days 3 in (start_date, start_date + days 7))"

definition slots_request :: "world \<Rightarrow> string \<Rightarrow> request" where
  "slots_request w urgency =
     (let (start_date, end_date) = slot_window w urgency in
      \<lparr>rmethod = GET, rurl = Some (fstr (getenv w ''APPOINTMENT_SLOTS_ENDPOINT'')),
       rparams = [(''calendarId'', json_of_env (getenv w ''CALENDAR_ID'')),
                  (''startDate'', JNum (timestamp_ms w start_date)),
                  (''endDate'', JNum (timestamp_ms w end_date)),
                  (''timezone'', JStr ''Europe/London'')],
       rheaders = bearer_headers w, rjson = None\<rparr>)"

definition find_appointment_slots :: "world \<Rightarrow> string \<Rightarrow> outcome" where
  "find_appointment_slots w urgency =
     (let req = slots_request w urgency
      in (except_request_exception
            (bind (send w req) (\<lambda>body.
             bind (response_json body) (\<lambda>slots.
             if truthy slots then
               bind (first_key slots) (\<lambda>first_date.
               bind (getitem_key slots first_date) (\<lambda>day.
               bind (getitem_key day ''slots'') (\<lambda>day_slots.
               bind (getitem_0 day_slots) (\<lambda>first_slot.
               Inr (Str (''The first available slot is '' @ py_str w first_slot))))))
             else Inr (Str ''No Slot Found''))))
            PyNone,
          [req]))"

definition emergency_request :: "world \<Rightarrow> string \<Rightarrow> string \<Rightarrow> request" where
  "emergency_request w slot email =
     \<lparr>rmethod = POST, rurl = Some (fstr (getenv w ''BOOK_APPOINTMENT_ENDPOINT'')),
      rparams = [], rheaders = bearer_headers w,
      rjson = Some (JObj [(''calendarId'', json_of_env (getenv w ''CALENDAR_ID'')),
                          (''selectedTimezone'', JStr ''Europe/London''),
                          (''selectedSlot'', JStr slot),
                          (''email'', JStr email),
                          (''phone'', JStr ''+0000000000'')])\<rparr>"

definition book_emergency_appointment :: "world \<Rightarrow> string \<Rightarrow> string \<Rightarrow> outcome" where
  "book_emergency_appointment w slot email =
     (let req = emergency_request w slot email
      in (except_request_exception
            (bind (send w req) (\<lambda>body.
             bind (response_json body) (\<lambda>appointment.
             Inr (Str ''call_human_agent''))))
            (Str ''There was an error booking your emergency appointment. Please try again later.''),
          [req]))"

fun scan_contacts :: "json list \<Rightarrow> exn + pyval" where
  "scan_contacts [] =
     Inr (Str ''You haven't booked a dental appointment yet. Would you like assistance in scheduling one?'')"
| "scan_contacts (contact # rest) =
     bind (py_get contact ''tags'' (JArr [])) (\<lambda>tags.
     bind (py_in ''livekit_appointment_booked'' tags) (\<lambda>found.
     if found then Inr (Str ''You have successfully booked a dental appointment.'')
     else scan_contacts rest))"

definition check_appointment_status :: "world \<Rightarrow> string \<Rightarrow> outcome" where
  "check_appointment_status w email =
     (let req = \<lparr>rmethod = GET,
                 rurl = Some (fstr (getenv w ''CRM_CONTACT_LOOKUP_ENDPOINT'') @ ''?email='' @ email),
                 rparams = [], rheaders = bearer_headers w, rjson = None\<rparr>
      in (except_request_exception
            (bind (send w req) (\<lambda>body.
             bind (response_json body) (\<lambda>data.
             bind (py_get data ''contacts'' (JArr [])) (\<lambda>contacts.
             bind (py_iter contacts) scan_contacts))))
            (Str ''Error checking the dental appointment status.''),
          [req]))"

definition urgent_keywords :: "string list" where
  "urgent_keywords =
     [''severe pain'', ''swelling'', ''bleeding'', ''trauma'', ''knocked out'', ''broken'']"

definition is_urgent :: "string \<Rightarrow> bool" where
  "is_urgent symptoms = list_ex (\<lambda>keyword. str_in keyword (lower symptoms)) urgent_keywords"

definition reassurance :: string where
  "reassurance = ''Your dental issue doesn't appear to be immediately urgent, but it's still important to schedule an appointment soon for a proper evaluation.''"

text \<open>\<open>assess_dental_urgency\<close> of \<open>AIAssistedCustomerHelpDesk.py\<close>.\<close>

definition assess_dental_urgency_helpdesk :: "string \<Rightarrow> outcome" where
  "assess_dental_urgency_helpdesk symptoms =
     (if is_urgent symptoms then (Inr (Str ''call_human_agent''), [])
      else (Inr (Str reassurance), []))"

text \<open>\<open>assess_dental_urgency\<close> of \<open>AIAssistedCustomerHelpDeskMultiFunction.py\<close>.\<close>

definition assess_dental_urgency_multi :: "string \<Rightarrow> outcome" where
  "assess_dental_urgency_multi symptoms =
     (if is_urgent symptoms then (Inr (Str ''The issue needs urgent attention !!''), [])
      else (Inr (Str reassurance), []))"



section \<open>Session state, background tasks and their effects\<close>

text \<open>
  The variables of \<open>entrypoint\<close> that the handlers share. Each handler is a function of
  the session; \<open>asyncio.create_task\<close> is modelled by the list of tasks a handler returns.
  A task runs after the handler that created it; what it does to the outside is the list
  of its effects. An exception that ends a task is kept beside the effects: nothing in
  the code awaits these tasks or handles their errors.
\<close>

datatype frame = Frame nat

datatype content = CText pyval | CImage frame

record chat_message =
  role :: string
  content :: "content list"

record session =
  human_agent_present :: bool
  chat_context :: "chat_message list"
  latest_image :: "frame option"

datatype effect =
    ModelCall "chat_message list"
  | Http request
  | Sleep nat
  | SipCall "string option" string

datatype task =
    AnswerTask pyval bool bool bool
  | FollowUpTask string
  | SipTask "string option" string

type_synonym run = "session \<times> effect list \<times> exn option"

text \<open>The part of \<open>_answer\<close> after its guard, the same in every variant: extend the chat
  context and send it to the model, whose reply is spoken.\<close>

definition say_answer :: "pyval \<Rightarrow> bool \<Rightarrow> session \<Rightarrow> run" where
  "say_answer text use_image s =
     (let content = CText text #
            (if use_image then (case latest_image s of None \<Rightarrow> [] | Some f \<Rightarrow> [CImage f])
             else []);
          s' = s\<lparr>chat_context := chat_context s @ [\<lparr>role = ''user'', content = content\<rparr>]\<rparr>
      in (s', [ModelCall (chat_context s')], None))"

text \<open>\<open>_answer\<close> of \<open>AIAssistedCustomerHelpDesk.py\<close>. Its parameter \<open>human_agent_present\<close>
  hides the variable of the session.\<close>

definition answer_helpdesk :: "pyval \<Rightarrow> bool \<Rightarrow> bool \<Rightarrow> bool \<Rightarrow> session \<Rightarrow> run" where
  "answer_helpdesk text use_image human_agent_present_arg ai_assistance_required s =
     (if human_agent_present_arg \<and> \<not> ai_assistance_required then (s, [], None)
      else say_answer text use_image s)"

text \<open>\<open>_answer\<close> of \<open>AIAssistedCustomerHelpDeskMultiFunction.py\<close>; \<open>text.lower()\<close> is
  evaluated only when the first conjunct holds.\<close>

definition answer_multi :: "pyval \<Rightarrow> bool \<Rightarrow> bool \<Rightarrow> bool \<Rightarrow> session \<Rightarrow> run" where
  "answer_multi text use_image human_agent_present_arg ai_assistance_required s =
     (if human_agent_present_arg then
        (case text of
           PyNone \<Rightarrow> (s, [], Some AttributeError)
         | Str t \<Rightarrow>
             if str_in ''help me'' (lower t) \<and> \<not> ai_assistance_required then (s, [], None)
             else say_answer text use_image s)
      else say_answer text use_image s)"

text \<open>\<open>_answer\<close> of \<open>KnolabsDentalAssistant.py\<close> has no guard.\<close>

definition answer_knolabs :: "pyval \<Rightarrow> bool \<Rightarrow> session \<Rightarrow> run" where
  "answer_knolabs text use_image s = say_answer text use_image s"

text \<open>\<open>follow_up_appointment\<close>: wait, look the booking up, and hand the status to
  \<open>_answer\<close> with every optional parameter at its default.\<close>

definition follow_up_appointment ::
  "(pyval \<Rightarrow> bool \<Rightarrow> bool \<Rightarrow> bool \<Rightarrow> session \<Rightarrow> run) \<Rightarrow> world \<Rightarrow> string \<Rightarrow> session \<Rightarrow> run" where
  "follow_up_appointment answer w email s =
     (case check_appointment_status w email of
        (Inl e, reqs) \<Rightarrow> (s, Sleep 20 # map Http reqs, Some e)
      | (Inr status, reqs) \<Rightarrow>
          (case answer status False False False s of
             (s', effs, err) \<Rightarrow> (s', Sleep 20 # map Http reqs @ effs, err)))"

definition create_sip_participant :: "world \<Rightarrow> string option \<Rightarrow> string \<Rightarrow> session \<Rightarrow> run" where
  "create_sip_participant w phone_number room s =
     (s, [SipCall phone_number room], if sip_raises w then Some SipError else None)"

fun run_task ::
  "(pyval \<Rightarrow> bool \<Rightarrow> bool \<Rightarrow> bool \<Rightarrow> session \<Rightarrow> run) \<Rightarrow> world \<Rightarrow> task \<Rightarrow> session \<Rightarrow> run" where
  "run_task answer w (AnswerTask text use_image hap air) s = answer text use_image hap air s"
| "run_task answer w (FollowUpTask email) s = follow_up_appointment answer w email s"
| "run_task answer w (SipTask phone_number room) s = create_sip_participant w phone_number room s"

text \<open>Running the tasks a handler created, in the order of their creation. The errors of
  the tasks are collected; none of them stops the others.\<close>

fun run_tasks ::
  "(pyval \<Rightarrow> bool \<Rightarrow> bool \<Rightarrow> bool \<Rightarrow> session \<Rightarrow> run) \<Rightarrow> world \<Rightarrow> task list \<Rightarrow> session
     \<Rightarrow> session \<times> effect list \<times> exn list" where
  "run_tasks answer w [] s = (s, [], [])"
| "run_tasks answer w (t # ts) s =
     (case run_task answer w t s of
        (s', effs, err) \<Rightarrow>
          (case run_tasks answer w ts s' of
             (s'', effs', errs) \<Rightarrow>
               (s'', effs @ effs', (case err of None \<Rightarrow> [] | Some e \<Rightarrow> [e]) @ errs)))"

fun is_model_call :: "effect \<Rightarrow> bool" where
  "is_model_call (ModelCall ctx) = True"
| "is_model_call _ = False"

definition model_calls :: "effect list \<Rightarrow> nat" where
  "model_calls effs = length (filter is_model_call effs)"

section \<open>The event handlers\<close>

text \<open>\<open>on_message_received\<close>, the same text in the help-desk and the multi-function
  assistant.\<close>

definition on_message_received :: "string \<Rightarrow> session \<Rightarrow> session \<times> task list" where
  "on_message_received msg s =
     (if msg \<noteq> [] \<and> \<not> human_agent_present s then
        (s, [AnswerTask (Str msg) False False False])
      else if msg \<noteq> [] \<and> human_agent_present s \<and> str_in ''help me'' (lower msg) then
        (s, [AnswerTask (Str msg) False True True])
      else (s, []))"

text \<open>\<open>on_customer_agent_finished\<close>, registered for \<open>participant_disconnected\<close> in the
  help-desk assistant. It assigns to no variable of the session.\<close>

definition on_customer_agent_finished :: "session \<Rightarrow> session \<times> task list" where
  "on_customer_agent_finished s =
     (s, [AnswerTask (Str ''Human Agent interaction completed. Politely ask if it was helpful and if user is happy to proceed with the in-person appointment.'')
            False False False])"

record called_function =
  fname :: string
  arguments :: "(string \<times> string) list"
  result :: pyval

definition arg_get :: "called_function \<Rightarrow> string \<Rightarrow> pyval" where
  "arg_get f k = (case map_of (arguments f) k of None \<Rightarrow> PyNone | Some v \<Rightarrow> Str v)"

fun py_truthy :: "pyval \<Rightarrow> bool" where
  "py_truthy PyNone = False"
| "py_truthy (Str t) = (t \<noteq> [])"

text \<open>The two branches that every variant shares.\<close>

definition dispatch_common :: "called_function \<Rightarrow> session \<Rightarrow> session \<times> task list" where
  "dispatch_common f s =
     (if fname f = ''book_appointment'' then
        (case arg_get f ''email'' of
           Str email \<Rightarrow> if email \<noteq> [] then (s, [FollowUpTask email]) else (s, [])
         | PyNone \<Rightarrow> (s, []))
      else if fname f = ''analyze_dental_image'' then
        (s, [AnswerTask (arg_get f ''user_msg'') True False False])
      else (s, []))"

text \<open>The escalation: the outbound call is created as a task and the flag is set in the
  next statement. (\<open>asyncio.sleep(10)\<close> is not awaited there and has no effect.)\<close>

definition on_function_calls_finished_helpdesk ::
  "world \<Rightarrow> called_function list \<Rightarrow> session \<Rightarrow> session \<times> task list" where
  "on_function_calls_finished_helpdesk w called_functions s =
     (case called_functions of
        [] \<Rightarrow> (s, [])
      | f # rest \<Rightarrow>
          if fname f = ''assess_dental_urgency'' then
            (if result f = Str ''call_human_agent'' then
               (s\<lparr>human_agent_present := True\<rparr>,
                [SipTask (getenv w ''HUMAN_AGENT_PHONE'') (room_name w)])
             else (s, [AnswerTask (result f) False False False]))
          else dispatch_common f s)"

definition on_function_calls_finished_multi ::
  "world \<Rightarrow> called_function list \<Rightarrow> session \<Rightarrow> session \<times> task list" where
  "on_function_calls_finished_multi w called_functions s =
     (case called_functions of
        [] \<Rightarrow> (s, [])
      | f # rest \<Rightarrow>
          if fname f = ''book_emergency_appointment'' then
            (if result f = Str ''call_human_agent'' then
               (s\<lparr>human_agent_present := True\<rparr>,
                [AnswerTask (Str ''Human assistance is coming. Please wait while I'm trying to connect you. I'll be here if you need me, just say my name.'')
                   False True True,
                 SipTask (getenv w ''HUMAN_AGENT_PHONE'') (room_name w)])
             else (s, [AnswerTask (result f) False False False]))
          else dispatch_common f s)"

text \<open>
  \<open>on_function_calls_finished\<close> of \<open>KnolabsDentalAssistant.py\<close>. The names bound where the
  handler runs are its parameter and local, the variables of \<open>entrypoint\<close>, and the
  names of the module; the builtins have no name \<open>function\<close>. Reading a name that is
  bound nowhere raises \<open>NameError\<close>.
\<close>

definition knolabs_names :: "string list" where
  "knolabs_names =
     [''called_functions'', ''function_name'', ''urgency_result'', ''email'', ''user_instruction'',
      ''ctx'', ''chat_context'', ''gpt'', ''openai_tts'', ''latest_image'', ''assistant'', ''chat'',
      ''_answer'', ''follow_up_appointment'', ''on_message_received'', ''on_function_calls_finished'',
      ''video_track'', ''event'',
      ''asyncio'', ''Annotated'', ''re'', ''os'', ''requests'', ''load_dotenv'', ''agents'', ''rtc'',
      ''JobContext'', ''WorkerOptions'', ''cli'', ''tokenize'', ''tts'', ''ChatContext'',
      ''ChatMessage'', ''ChatImage'', ''VoiceAssistant'', ''deepgram'', ''openai'', ''silero'',
      ''DentalAssistantFunction'', ''get_video_track'', ''entrypoint'']"

definition read_name :: "string \<Rightarrow> 'a \<Rightarrow> exn + 'a" where
  "read_name n v = (if n \<in> set knolabs_names then Inr v else Inl (NameError n))"

definition on_function_calls_finished_knolabs ::
  "called_function list \<Rightarrow> session \<Rightarrow> exn + session \<times> task list" where
  "on_function_calls_finished_knolabs called_functions s =
     (case called_functions of
        [] \<Rightarrow> Inr (s, [])
      | f # rest \<Rightarrow>
          if fname f = ''assess_dental_urgency'' then
            bind (read_name ''function'' f) (\<lambda>function.
            Inr (s, [AnswerTask (result function) False False False]))
          else Inr (dispatch_common f s))"

text \<open>A run of chat messages: each is handled, then the tasks it created are run.\<close>

fun chat_run ::
  "(pyval \<Rightarrow> bool \<Rightarrow> bool \<Rightarrow> bool \<Rightarrow> session \<Rightarrow> run) \<Rightarrow> world \<Rightarrow> string list \<Rightarrow> session
     \<Rightarrow> session \<times> effect list" where
  "chat_run answer w [] s = (s, [])"
| "chat_run answer w (msg # msgs) s =
     (case on_message_received msg s of
        (s1, tasks) \<Rightarrow>
          (case run_tasks answer w tasks s1 of
             (s2, effs, errs) \<Rightarrow>
               (case chat_run answer w msgs s2 of
                  (s3, effs') \<Rightarrow> (s3, effs @ effs'))))"

section \<open>Vocabulary of the properties\<close>

text \<open>What the framework hands to \<open>function_calls_finished\<close> for a call that has returned:
  the name, the arguments and the returned value (\<open>None\<close> if the call raised).\<close>

definition result_of :: "outcome \<Rightarrow> pyval" where
  "result_of out = (case fst out of Inl e \<Rightarrow> PyNone | Inr v \<Rightarrow> v)"

definition called :: "string \<Rightarrow> (string \<times> string) list \<Rightarrow> outcome \<Rightarrow> called_function" where
  "called n args out = \<lparr>fname = n, arguments = args, result = result_of out\<rparr>"

text \<open>\<open>k\<close> occurs in \<open>s\<close> up to the case of letters.\<close>

definition contains_ci :: "string \<Rightarrow> string \<Rightarrow> bool" where
  "contains_ci k s = sublist (lower k) (lower s)"

text \<open>The request raised, or \<open>raise_for_status\<close> did.\<close>

definition http_error :: "http_outcome \<Rightarrow> bool" where
  "http_error out =
     (case out of Raises \<Rightarrow> True | Response status body \<Rightarrow> raise_for_status status)"

text \<open>The response came, but its body is empty or no JSON text.\<close>

definition undecodable :: "http_outcome \<Rightarrow> bool" where
  "undecodable out = (case out of Raises \<Rightarrow> False | Response status b \<Rightarrow> b = NotJson)"



fun is_http :: "effect \<Rightarrow> bool" where
  "is_http (Http req) = True"
| "is_http _ = False"

definition http_calls :: "effect list \<Rightarrow> nat" where
  "http_calls effs = length (filter is_http effs)"

text \<open>The message that \<open>_answer\<close> appends for a chat text, and the help phrase.\<close>

definition user_message :: "string \<Rightarrow> chat_message" where
  "user_message m = \<lparr>role = ''user'', content = [CText (Str m)]\<rparr>"

definition asks_help :: "string \<Rightarrow> bool" where
  "asks_help m = str_in ''help me'' (lower m)"

text \<open>A handler followed by the tasks it created.\<close>

definition and_run ::
  "(pyval \<Rightarrow> bool \<Rightarrow> bool \<Rightarrow> bool \<Rightarrow> session \<Rightarrow> run) \<Rightarrow> world \<Rightarrow> session \<times> task list
     \<Rightarrow> session \<times> effect list \<times> exn list" where
  "and_run answer w st = run_tasks answer w (snd st) (fst st)"

text \<open>Concrete surroundings and sessions on which the definitions are evaluated.\<close>

definition demo_world :: "(request \<Rightarrow> http_outcome) \<Rightarrow> bool \<Rightarrow> world" where
  "demo_world h sip =
     \<lparr>getenv = map_of [(''API_TOKEN'', ''token''),
                       (''WEBHOOK_URL'', ''https://hooks.example/book''),
                       (''CRM_CONTACT_ENDPOINT'', ''https://crm.example/contacts''),
                       (''CRM_CONTACT_LOOKUP_ENDPOINT'', ''https://crm.example/contacts/lookup''),
                       (''APPOINTMENT_SLOTS_ENDPOINT'', ''https://crm.example/slots''),
                       (''BOOK_APPOINTMENT_ENDPOINT'', ''https://crm.example/appointments''),
                       (''CALENDAR_ID'', ''cal-1''),
                       (''HUMAN_AGENT_PHONE'', ''+441234567890'')],
      url_ok = prefix ''https://'',
      http = h, sip_raises = sip, now = 0, timestamp_ms = (\<lambda>t. t div 1000),
      py_str = (\<lambda>j. case j of JStr t \<Rightarrow> t | _ \<Rightarrow> ''?''), room_name = ''room-1''\<rparr>"

text \<open>Servers that answer every request alike: with 200 and the body \<open>{}\<close>; not at all;
  with 204 and no body; with 300 and the body \<open>{}\<close>; with 200 and one date that has one
  slot; with 200 and one date whose list of slots is empty; with 200 and a body nested
  too deeply; with 200 and a saved contact.\<close>

definition world_empty_object :: world where
  "world_empty_object = demo_world (\<lambda>req. Response 200 (Json (JObj []))) False"

definition world_down :: world where
  "world_down = demo_world (\<lambda>req. Raises) False"

definition world_no_content :: world where
  "world_no_content = demo_world (\<lambda>req. Response 204 NotJson) False"

definition world_multiple_choices :: world where
  "world_multiple_choices = demo_world (\<lambda>req. Response 300 (Json (JObj []))) False"


definition world_empty_day :: world where
  "world_empty_day =
     demo_world (\<lambda>req. Response 200 (Json (JObj [(''2024-10-18'',
        JObj [(''slots'', JArr [])])]))) False"



definition world_sip_fails :: world where
  "world_sip_fails = demo_world (\<lambda>req. Raises) True"

definition ai_session :: session where
  "ai_session = \<lparr>human_agent_present = False, chat_context = [], latest_image = None\<rparr>"

definition human_session :: session where
  "human_session = \<lparr>human_agent_present = True, chat_context = [], latest_image = None\<rparr>"

section \<open>Auxiliary facts\<close>

lemma re_match_End_prefix: "re_match (p @ [End]) s \<Longrightarrow> re_match p s"
  by (induction p s rule: re_match.induct) auto

text \<open>What \<open>re.match\<close> accepts for the email pattern: the string begins with a non-empty
  block without \<open>@\<close>, an \<open>@\<close>, a second such block, a dot and a third such block; anything
  may follow.\<close>

lemma re_match_Many_NotLit:
  "re_match (Many (NotLit x) # p) s =
     (\<exists>a r. s = a @ r \<and> a \<noteq> [] \<and> x \<notin> set a \<and> re_match p r)"
proof (induction s)
  case Nil
  then show ?case by simp
next
  case (Cons c cs)
  show ?case
  proof
    assume "re_match (Many (NotLit x) # p) (c # cs)"
    hence c: "c \<noteq> x" and d: "re_match (Many (NotLit x) # p) cs \<or> re_match p cs"
      by auto
    from d show "\<exists>a r. c # cs = a @ r \<and> a \<noteq> [] \<and> x \<notin> set a \<and> re_match p r"
    proof
      assume "re_match (Many (NotLit x) # p) cs"
      with Cons.IH obtain a r where "cs = a @ r" "x \<notin> set a" "re_match p r" by blast
      with c have "c # cs = (c # a) @ r \<and> c # a \<noteq> [] \<and> x \<notin> set (c # a) \<and> re_match p r"
        by auto
      thus ?thesis by blast
    next
      assume "re_match p cs"
      with c have "c # cs = [c] @ cs \<and> [c] \<noteq> [] \<and> x \<notin> set [c] \<and> re_match p cs"
        by auto
      thus ?thesis by blast
    qed
  next
    assume "\<exists>a r. c # cs = a @ r \<and> a \<noteq> [] \<and> x \<notin> set a \<and> re_match p r"
    then obtain a r where e: "c # cs = a @ r" "a \<noteq> []" "x \<notin> set a" "re_match p r" by blast
    then obtain a' where a: "a = c # a'" "cs = a' @ r"
      by (cases a) auto
    show "re_match (Many (NotLit x) # p) (c # cs)"
    proof (cases "a' = []")
      case True
      with a e show ?thesis by auto
    next
      case False
      with a e have "re_match (Many (NotLit x) # p) cs"
        using Cons.IH by auto
      with a e show ?thesis by auto
    qed
  qed
qed

lemma re_match_One_Lit:
  "re_match (One (Lit x) # p) s = (\<exists>r. s = x # r \<and> re_match p r)"
  by (cases s) auto

lemma re_match_email_pattern:
  "re_match email_pattern s =
     (\<exists>a b c r. s = a @ ''@'' @ b @ ''.'' @ c @ r \<and> a \<noteq> [] \<and> b \<noteq> [] \<and> c \<noteq> [] \<and>
        CHR ''@'' \<notin> set a \<and> CHR ''@'' \<notin> set b \<and> CHR ''@'' \<notin> set c)"
  unfolding email_pattern_def re_match_Many_NotLit re_match_One_Lit
  by (simp add: re_match_Many_NotLit re_match_One_Lit) blast

lemma str_in_sublist: "str_in k s = sublist k s"
  by (induction s) (auto simp: sublist_Cons_right)

lemma lower_keywords: "map lower urgent_keywords = urgent_keywords"
  by (simp add: urgent_keywords_def lower_def lower_char_def)

lemma is_urgent_iff: "is_urgent s = (\<exists>k \<in> set urgent_keywords. contains_ci k s)"
proof -
  have "\<forall>k \<in> set urgent_keywords. lower k = k"
    using lower_keywords by (metis map_eq_conv map_ident)
  thus ?thesis
    by (auto simp: is_urgent_def list_ex_iff contains_ci_def str_in_sublist)
qed

text \<open>\<open>contains_ci\<close> says that some block of \<open>s\<close> equals \<open>k\<close> once both are lower-cased.\<close>

lemma contains_ci_iff:
  "contains_ci k s = (\<exists>t. sublist t s \<and> lower t = lower k)"
proof
  assume "contains_ci k s"
  then obtain ps ss where "map lower_char s = ps @ map lower_char k @ ss"
    by (auto simp: contains_ci_def sublist_def lower_def)
  then obtain a r where 1: "s = a @ r" and 2: "map lower_char r = map lower_char k @ ss"
    by (metis map_eq_append_conv)
  from 2 obtain b c where 3: "r = b @ c" and 4: "map lower_char b = map lower_char k"
    by (metis map_eq_append_conv)
  from 1 3 have "sublist b s"
    by (simp add: sublist_def) blast
  with 4 show "\<exists>t. sublist t s \<and> lower t = lower k"
    by (auto simp: lower_def)
next
  assume "\<exists>t. sublist t s \<and> lower t = lower k"
  then obtain t ps ss where "s = ps @ t @ ss" "lower t = lower k"
    by (auto simp: sublist_def)
  thus "contains_ci k s"
    by (auto simp: contains_ci_def lower_def sublist_def)
qed

lemma send_world_down: "send world_down req = Inl RequestException"
  by (cases "rurl req") (simp_all add: send_def exchange_def world_down_def demo_world_def)

lemma check_appointment_status_down:
  "fst (check_appointment_status world_down email) =
     Inr (Str ''Error checking the dental appointment status.'')"
  by (simp add: check_appointment_status_def Let_def send_world_down bind_def
        except_request_exception_def)

lemma follow_up_counts:
  assumes "answer = answer_helpdesk \<or> answer = answer_multi"
    and "fst (check_appointment_status w email) = Inr status"
  shows "model_calls (fst (snd (run_task answer w (FollowUpTask email) s))) = 1"
    and "http_calls (fst (snd (run_task answer w (FollowUpTask email) s))) = 1"
proof -
  have a: "answer status False False False s = say_answer status False s"
    using assms(1) by (auto simp: answer_helpdesk_def answer_multi_def)
  have b: "snd (check_appointment_status w email) \<noteq> [] \<and>
           length (snd (check_appointment_status w email)) = 1"
    by (simp add: check_appointment_status_def Let_def)
  obtain reqs where c: "check_appointment_status w email = (Inr status, reqs)"
    using assms(2) by (cases "check_appointment_status w email") auto
  with b have d: "length reqs = 1" by simp
  show "model_calls (fst (snd (run_task answer w (FollowUpTask email) s))) = 1"
    using a c by (simp add: follow_up_appointment_def say_answer_def Let_def model_calls_def)
  show "http_calls (fst (snd (run_task answer w (FollowUpTask email) s))) = 1"
    using a c d by (simp add: follow_up_appointment_def say_answer_def Let_def http_calls_def)
qed

section \<open>Booking an appointment\<close>

text \<open>
  C1, as the code has it. \<open>re.match\<close> anchors the pattern at the start only, so every email
  that matches the anchored pattern also passes the check, and so does every email with a
  matching prefix. For an email that passes, \<open>book_appointment\<close> issues exactly one POST, to
  the webhook; for an email that does not, it returns the correction message and makes no
  call. The dispatch after the call does not look at the result: it schedules exactly
  one follow-up whenever the email argument is non-empty, whether the email was accepted
  or not.
\<close>

theorem book_appointment_calls:
  "(re_match email_pattern_anchored email \<longrightarrow> re_match email_pattern email) \<and>
   (re_match email_pattern email \<longrightarrow>
      map rmethod (snd (book_appointment w email name)) = [POST] \<and>
      map rurl (snd (book_appointment w email name)) = [getenv w ''WEBHOOK_URL'']) \<and>
   (\<not> re_match email_pattern email \<longrightarrow>
      book_appointment w email name =
        (Inr (Str ''The email address seems incorrect. Please provide a valid one.''), [])) \<and>
   on_function_calls_finished_multi w
       (called ''book_appointment'' [(''email'', email), (''name'', name)]
          (book_appointment w email name) # rest) s
     = (s, if email = [] then [] else [FollowUpTask email])"
  by (auto simp: email_pattern_anchored_def re_match_End_prefix book_appointment_def Let_def
        on_function_calls_finished_multi_def called_def dispatch_common_def arg_get_def)

theorem book_appointment_calls_witness:
  "re_match email_pattern_anchored ''bob@example.com'' \<and>
   map rmethod (snd (book_appointment world_down ''bob@example.com'' ''Bob'')) = [POST] \<and>
   \<not> re_match email_pattern ''bob'' \<and>
   book_appointment world_down ''bob'' ''Bob'' =
     (Inr (Str ''The email address seems incorrect. Please provide a valid one.''), []) \<and>
   on_function_calls_finished_multi world_down
       [called ''book_appointment'' [(''email'', ''bob@example.com''), (''name'', ''Bob'')]
          (book_appointment world_down ''bob@example.com'' ''Bob'')] ai_session
     = (ai_session, [FollowUpTask ''bob@example.com''])"
proof -
  have a: "re_match email_pattern_anchored ''bob@example.com''"
    by (simp add: email_pattern_anchored_def email_pattern_def)
  have b: "\<not> re_match email_pattern ''bob''"
    by (simp add: email_pattern_def)
  from a b book_appointment_calls [of "''bob@example.com''" world_down "''Bob''" "[]" ai_session]
    book_appointment_calls [of "''bob''" world_down "''Bob''" "[]" ai_session]
  show ?thesis by simp
qed

text \<open>
  The claim as stated fails twice: \<open>a@b.c@d\<close> does not match the anchored pattern, yet the
  POST is issued; \<open>bob\<close> is rejected, yet the dispatch schedules the follow-up, which
  calls the CRM when it runs.
\<close>

theorem book_appointment_counterexample:
  "\<not> re_match email_pattern_anchored ''a@b.c@d'' \<and>
   map rmethod (snd (book_appointment world_down ''a@b.c@d'' ''Bob'')) = [POST] \<and>
   \<not> re_match email_pattern_anchored ''bob'' \<and>
   snd (on_function_calls_finished_multi world_down
         [called ''book_appointment'' [(''email'', ''bob''), (''name'', ''Bob'')]
            (book_appointment world_down ''bob'' ''Bob'')] ai_session)
     = [FollowUpTask ''bob''] \<and>
   http_calls (fst (snd (run_task answer_multi world_down (FollowUpTask ''bob'') ai_session))) = 1"
proof -
  have 1: "\<not> re_match email_pattern_anchored ''a@b.c@d''"
    by (simp add: email_pattern_anchored_def email_pattern_def)
  have 2: "map rmethod (snd (book_appointment world_down ''a@b.c@d'' ''Bob'')) = [POST]"
    by (simp add: book_appointment_def Let_def email_pattern_def)
  have 3: "\<not> re_match email_pattern_anchored ''bob''"
    by (simp add: email_pattern_anchored_def email_pattern_def)
  have 4: "snd (on_function_calls_finished_multi world_down
         [called ''book_appointment'' [(''email'', ''bob''), (''name'', ''Bob'')]
            (book_appointment world_down ''bob'' ''Bob'')] ai_session)
     = [FollowUpTask ''bob'']"
    by (simp add: on_function_calls_finished_multi_def called_def dispatch_common_def arg_get_def)
  have 5: "http_calls (fst (snd (run_task answer_multi world_down (FollowUpTask ''bob'')
             ai_session))) = 1"
    by (rule follow_up_counts(2) [OF _ check_appointment_status_down]) simp
  from 1 2 3 4 5 show ?thesis by blast
qed

section \<open>Assessing urgency\<close>

text \<open>
  C2, as the code has it. Whether \<open>symptoms\<close> contains one of the six keywords up to
  letter case decides the result. In the help-desk assistant the urgent result is the
  value \<open>call_human_agent\<close>, which the dispatch consumes to set the flag; in the
  multi-function assistant it is a fixed text, which the dispatch ignores. Otherwise both
  return the reassurance text. Neither makes an HTTP call, and neither raises.
\<close>

theorem assess_dental_urgency_results:
  "assess_dental_urgency_helpdesk symptoms =
     (Inr (Str (if (\<exists>k \<in> set urgent_keywords. contains_ci k symptoms)
                then ''call_human_agent'' else reassurance)), []) \<and>
   human_agent_present (fst (on_function_calls_finished_helpdesk w
       (called ''assess_dental_urgency'' [(''symptoms'', symptoms)]
          (assess_dental_urgency_helpdesk symptoms) # rest) s))
     = ((\<exists>k \<in> set urgent_keywords. contains_ci k symptoms) \<or> human_agent_present s) \<and>
   assess_dental_urgency_multi symptoms =
     (Inr (Str (if (\<exists>k \<in> set urgent_keywords. contains_ci k symptoms)
                then ''The issue needs urgent attention !!'' else reassurance)), []) \<and>
   on_function_calls_finished_multi w
       (called ''assess_dental_urgency'' [(''symptoms'', symptoms)]
          (assess_dental_urgency_multi symptoms) # rest) s = (s, [])"
  by (simp add: assess_dental_urgency_helpdesk_def assess_dental_urgency_multi_def
        is_urgent_iff on_function_calls_finished_helpdesk_def on_function_calls_finished_multi_def
        called_def result_of_def reassurance_def dispatch_common_def)

theorem assess_dental_urgency_results_witness:
  "(\<exists>k \<in> set urgent_keywords. contains_ci k ''My gum is BLEEDING'') \<and>
   assess_dental_urgency_helpdesk ''My gum is BLEEDING'' = (Inr (Str ''call_human_agent''), []) \<and>
   assess_dental_urgency_multi ''My gum is BLEEDING'' =
     (Inr (Str ''The issue needs urgent attention !!''), []) \<and>
   \<not> (\<exists>k \<in> set urgent_keywords. contains_ci k ''a check-up'') \<and>
   assess_dental_urgency_helpdesk ''a check-up'' = (Inr (Str reassurance), [])"
proof -
  have a: "is_urgent ''My gum is BLEEDING''"
    by code_simp
  have b: "\<not> is_urgent ''a check-up''"
    by (simp add: is_urgent_def urgent_keywords_def lower_def lower_char_def)
  from a b assess_dental_urgency_results [of "''My gum is BLEEDING''" world_down "[]" ai_session]
    assess_dental_urgency_results [of "''a check-up''" world_down "[]" ai_session]
  show ?thesis by (simp add: is_urgent_iff)
qed

text \<open>
  The claim as stated fails in the multi-function assistant: a symptom text with an urgent
  keyword does not yield the escalation value, and the dispatch does not escalate.
\<close>

theorem assess_dental_urgency_counterexample:
  "contains_ci ''bleeding'' ''My gum is BLEEDING'' \<and>
   fst (assess_dental_urgency_multi ''My gum is BLEEDING'') \<noteq> Inr (Str ''call_human_agent'') \<and>
   \<not> human_agent_present (fst (on_function_calls_finished_multi world_down
       [called ''assess_dental_urgency'' [(''symptoms'', ''My gum is BLEEDING'')]
          (assess_dental_urgency_multi ''My gum is BLEEDING'')] ai_session))"
proof -
  have "str_in (lower ''bleeding'') (lower ''My gum is BLEEDING'')"
    by code_simp
  hence a: "contains_ci ''bleeding'' ''My gum is BLEEDING''"
    by (simp only: contains_ci_def str_in_sublist)
  have b: "is_urgent ''My gum is BLEEDING''"
    by code_simp
  from a b show ?thesis
    by (simp add: assess_dental_urgency_multi_def on_function_calls_finished_multi_def
          called_def dispatch_common_def ai_session_def)
qed

section \<open>The dispatch of \<open>KnolabsDentalAssistant.py\<close>\<close>

text \<open>
  C10. When the first finished call is \<open>assess_dental_urgency\<close>, the handler reads the
  name \<open>function\<close>, which is bound nowhere: it raises \<open>NameError\<close> and creates no task, so
  the result of the assessment is not handed to \<open>_answer\<close>.
\<close>

theorem knolabs_assess_dispatch_raises:
  "fname f = ''assess_dental_urgency'' \<Longrightarrow>
   on_function_calls_finished_knolabs (f # rest) s = Inl (NameError ''function'')"
  by (simp add: on_function_calls_finished_knolabs_def read_name_def knolabs_names_def bind_def)

theorem knolabs_assess_dispatch_raises_witness:
  "on_function_calls_finished_knolabs
     [called ''assess_dental_urgency'' [(''symptoms'', ''My gum is BLEEDING'')]
        (Inr (Str ''Based on your description, this seems to be an urgent dental issue. I recommend seeking immediate dental care.''), [])]
     ai_session = Inl (NameError ''function'')"
  using knolabs_assess_dispatch_raises [of "called ''assess_dental_urgency'' [(''symptoms'', ''My gum is BLEEDING'')]
        (Inr (Str ''Based on your description, this seems to be an urgent dental issue. I recommend seeking immediate dental care.''), [])" "[]" ai_session]
  by (simp add: called_def)

section \<open>Chat messages while a human agent is present\<close>

lemma asks_help_nonempty: "asks_help m \<Longrightarrow> m \<noteq> []"
  by (auto simp: asks_help_def lower_def)

lemma message_human_active:
  assumes "human_agent_present s" "answer = answer_helpdesk \<or> answer = answer_multi"
  shows "and_run answer w (on_message_received m s) =
           (if asks_help m
            then (s\<lparr>chat_context := chat_context s @ [user_message m]\<rparr>,
                  [ModelCall (chat_context s @ [user_message m])], [])
            else (s, [], []))"
  using assms asks_help_nonempty [of m]
  by (auto simp: and_run_def on_message_received_def answer_helpdesk_def answer_multi_def
        say_answer_def user_message_def asks_help_def Let_def)

lemma chat_run_human_active:
  assumes "answer = answer_helpdesk \<or> answer = answer_multi"
  shows "human_agent_present s \<Longrightarrow>
         fst (chat_run answer w msgs s) =
           s\<lparr>chat_context := chat_context s @ map user_message (filter asks_help msgs)\<rparr> \<and>
         model_calls (snd (chat_run answer w msgs s)) = length (filter asks_help msgs)"
proof (induction msgs arbitrary: s)
  case Nil
  then show ?case by (simp add: model_calls_def)
next
  case (Cons m msgs)
  let ?s1 = "if asks_help m then s\<lparr>chat_context := chat_context s @ [user_message m]\<rparr> else s"
  have step: "run_tasks answer w (snd (on_message_received m s)) (fst (on_message_received m s)) =
           (if asks_help m
            then (s\<lparr>chat_context := chat_context s @ [user_message m]\<rparr>,
                  [ModelCall (chat_context s @ [user_message m])], [])
            else (s, [], []))"
    using message_human_active [OF Cons.prems assms, of w m] by (simp add: and_run_def)
  have hap: "human_agent_present ?s1" using Cons.prems by simp
  from Cons.IH [OF hap] step show ?case
    by (auto simp: model_calls_def split: prod.splits)
qed

text \<open>
  C3. While \<open>human_agent_present\<close> is set, a chat message without the help phrase creates no
  task, reaches no model and leaves the session as it was (it is not kept for later); a
  message with the help phrase reaches the model once. Over any run of chat messages the
  flag stays set, the chat context grows by exactly the messages with the help phrase,
  and the model is invoked once for each of them. This holds in the help-desk and in the
  multi-function assistant.
\<close>

theorem human_active_chat:
  "human_agent_present s \<Longrightarrow> answer = answer_helpdesk \<or> answer = answer_multi \<Longrightarrow>
   (\<not> asks_help m \<longrightarrow> and_run answer w (on_message_received m s) = (s, [], [])) \<and>
   (asks_help m \<longrightarrow> model_calls (fst (snd (and_run answer w (on_message_received m s)))) = 1) \<and>
   fst (chat_run answer w msgs s) =
     s\<lparr>chat_context := chat_context s @ map user_message (filter asks_help msgs)\<rparr> \<and>
   model_calls (snd (chat_run answer w msgs s)) = length (filter asks_help msgs)"
  using chat_run_human_active [of answer s w msgs] message_human_active [of s answer w m]
  by (simp add: model_calls_def)

theorem human_active_chat_witness:
  "human_agent_present human_session \<and> \<not> asks_help ''my tooth hurts'' \<and>
   asks_help ''Daela, HELP me please'' \<and>
   and_run answer_helpdesk world_down (on_message_received ''my tooth hurts'' human_session)
     = (human_session, [], []) \<and>
   model_calls (snd (chat_run answer_multi world_down
       [''my tooth hurts'', ''Daela, HELP me please'', ''thanks''] human_session)) = 1"
proof -
  have a: "human_agent_present human_session" by (simp add: human_session_def)
  have b: "\<not> asks_help ''my tooth hurts''" by code_simp
  have c: "asks_help ''Daela, HELP me please''" by code_simp
  have d: "\<not> asks_help ''thanks''" by code_simp
  from a b c d
    human_active_chat [of human_session answer_helpdesk "''my tooth hurts''" world_down "[]"]
    human_active_chat [of human_session answer_multi "''Daela, HELP me please''" world_down
      "[''my tooth hurts'', ''Daela, HELP me please'', ''thanks'']"]
  show ?thesis by simp
qed

section \<open>The human agent leaves\<close>

text \<open>
  C4, evaluated on the code. In a session where the human agent is present, the handler
  of \<open>participant_disconnected\<close> returns the session unchanged: the flag is still set after
  the handler and its task have run. The re-engagement message is produced once, and the
  user's next chat message is then dropped as if the human agent were still there.
\<close>

theorem on_customer_agent_finished_flag:
  "fst (on_customer_agent_finished human_session) = human_session \<and>
   human_agent_present
     (fst (and_run answer_helpdesk world_down (on_customer_agent_finished human_session))) \<and>
   model_calls
     (fst (snd (and_run answer_helpdesk world_down (on_customer_agent_finished human_session)))) = 1 \<and>
   snd (on_message_received ''yes, it was helpful''
     (fst (and_run answer_helpdesk world_down (on_customer_agent_finished human_session)))) = []"
proof -
  have "\<not> asks_help ''yes, it was helpful''" by code_simp
  thus ?thesis
    by (simp add: on_customer_agent_finished_def and_run_def answer_helpdesk_def say_answer_def
          Let_def model_calls_def on_message_received_def human_session_def asks_help_def)
qed

section \<open>Escalation to a human agent\<close>

text \<open>
  C5, as the code has it. When the dispatch sees the escalation value, it creates the task
  of the outbound call and sets the flag in the same handler, before the call request has
  run. The flag is set whether the request raises or not; an error of the request ends
  the task and is handled nowhere.
\<close>

theorem escalation_sets_flag:
  "(fname f = ''assess_dental_urgency'' \<and> result f = Str ''call_human_agent'' \<longrightarrow>
      and_run answer_helpdesk w (on_function_calls_finished_helpdesk w (f # rest) s) =
        (s\<lparr>human_agent_present := True\<rparr>,
         [SipCall (getenv w ''HUMAN_AGENT_PHONE'') (room_name w)],
         if sip_raises w then [SipError] else [])) \<and>
   (fname f = ''book_emergency_appointment'' \<and> result f = Str ''call_human_agent'' \<longrightarrow>
      human_agent_present
        (fst (and_run answer_multi w (on_function_calls_finished_multi w (f # rest) s))) \<and>
      snd (snd (and_run answer_multi w (on_function_calls_finished_multi w (f # rest) s))) =
        (if sip_raises w then [SipError] else []))"
  by (simp add: and_run_def on_function_calls_finished_helpdesk_def
        on_function_calls_finished_multi_def create_sip_participant_def answer_multi_def
        say_answer_def Let_def)

theorem escalation_sets_flag_witness:
  "and_run answer_helpdesk world_sip_fails
     (on_function_calls_finished_helpdesk world_sip_fails
        [called ''assess_dental_urgency'' [(''symptoms'', ''bleeding'')]
           (assess_dental_urgency_helpdesk ''bleeding'')] ai_session)
     = (ai_session\<lparr>human_agent_present := True\<rparr>,
        [SipCall (Some ''+441234567890'') ''room-1''], [SipError]) \<and>
   human_agent_present (fst (and_run answer_multi world_down
     (on_function_calls_finished_multi world_down
        [called ''book_emergency_appointment'' [] (Inr (Str ''call_human_agent''), [])]
        ai_session)))"
proof -
  have a: "is_urgent ''bleeding''" by code_simp
  from a
    escalation_sets_flag [of "called ''assess_dental_urgency'' [(''symptoms'', ''bleeding'')]
           (assess_dental_urgency_helpdesk ''bleeding'')" world_sip_fails "[]" ai_session]
    escalation_sets_flag [of "called ''book_emergency_appointment'' [] (Inr (Str ''call_human_agent''), [])"
      world_down "[]" ai_session]
  show ?thesis
    by (simp add: called_def result_of_def assess_dental_urgency_helpdesk_def
          world_sip_fails_def demo_world_def)
qed

text \<open>
  The claim as stated fails: the call request raises, and the session has the flag set.
\<close>

theorem escalation_counterexample:
  "sip_raises world_sip_fails \<and>
   human_agent_present (fst (and_run answer_helpdesk world_sip_fails
     (on_function_calls_finished_helpdesk world_sip_fails
        [called ''assess_dental_urgency'' [(''symptoms'', ''bleeding'')]
           (assess_dental_urgency_helpdesk ''bleeding'')] ai_session))) \<and>
   snd (snd (and_run answer_helpdesk world_sip_fails
     (on_function_calls_finished_helpdesk world_sip_fails
        [called ''assess_dental_urgency'' [(''symptoms'', ''bleeding'')]
           (assess_dental_urgency_helpdesk ''bleeding'')] ai_session))) = [SipError]"
proof -
  have a: "is_urgent ''bleeding''" by code_simp
  thus ?thesis
    by (simp add: and_run_def on_function_calls_finished_helpdesk_def called_def result_of_def
          assess_dental_urgency_helpdesk_def create_sip_participant_def world_sip_fails_def
          demo_world_def ai_session_def)
qed

section \<open>Who may speak\<close>

lemma answer_default:
  "answer = answer_helpdesk \<or> answer = answer_multi \<Longrightarrow>
   answer text use_image False air s = say_answer text use_image s"
  by (auto simp: answer_helpdesk_def answer_multi_def)

lemma say_answer_once: "model_calls (fst (snd (say_answer text use_image s))) = 1"
  by (simp add: say_answer_def Let_def model_calls_def)

lemma say_answer_flag:
  "human_agent_present (fst (say_answer text use_image s)) = human_agent_present s"
  by (simp add: say_answer_def Let_def)

text \<open>
  C9, as the code has it. The flag of the session is read by \<open>on_message_received\<close> only:
  while it is set, a chat message without the help phrase creates no task. \<open>_answer\<close> is
  guarded by its own parameter, which hides the flag and defaults to \<open>False\<close>; called with
  that parameter \<open>False\<close> it invokes the model once and leaves the flag as it is, whatever
  the flag of the session. The follow-up status check (whenever the status lookup
  returns) and the re-engagement after a disconnect call it that way, so they speak
  also while the human agent is present.
\<close>

theorem flag_gates_chat_only:
  "answer = answer_helpdesk \<or> answer = answer_multi \<Longrightarrow>
   (human_agent_present s \<and> \<not> asks_help m \<longrightarrow> snd (on_message_received m s) = []) \<and>
   run_task answer w (AnswerTask text use_image False air) s = say_answer text use_image s \<and>
   model_calls (fst (snd (say_answer text use_image s))) = 1 \<and>
   human_agent_present (fst (say_answer text use_image s)) = human_agent_present s \<and>
   (\<forall>status. fst (check_appointment_status w email) = Inr status \<longrightarrow>
      fst (run_task answer w (FollowUpTask email) s) = fst (say_answer status False s) \<and>
      model_calls (fst (snd (run_task answer w (FollowUpTask email) s))) = 1) \<and>
   and_run answer w (on_customer_agent_finished s) =
     (fst (say_answer (Str ''Human Agent interaction completed. Politely ask if it was helpful and if user is happy to proceed with the in-person appointment.'') False s),
      fst (snd (say_answer (Str ''Human Agent interaction completed. Politely ask if it was helpful and if user is happy to proceed with the in-person appointment.'') False s)),
      [])"
proof -
  assume a: "answer = answer_helpdesk \<or> answer = answer_multi"
  have 1: "human_agent_present s \<and> \<not> asks_help m \<longrightarrow> snd (on_message_received m s) = []"
    by (simp add: on_message_received_def asks_help_def)
  have 2: "run_task answer w (AnswerTask text use_image False air) s = say_answer text use_image s"
    using answer_default [OF a] by simp
  have 3: "\<forall>status. fst (check_appointment_status w email) = Inr status \<longrightarrow>
      fst (run_task answer w (FollowUpTask email) s) = fst (say_answer status False s) \<and>
      model_calls (fst (snd (run_task answer w (FollowUpTask email) s))) = 1"
    using answer_default [OF a]
    by (auto simp: follow_up_appointment_def say_answer_def Let_def model_calls_def
          split: prod.splits sum.splits)
  have 4: "and_run answer w (on_customer_agent_finished s) =
     (fst (say_answer (Str ''Human Agent interaction completed. Politely ask if it was helpful and if user is happy to proceed with the in-person appointment.'') False s),
      fst (snd (say_answer (Str ''Human Agent interaction completed. Politely ask if it was helpful and if user is happy to proceed with the in-person appointment.'') False s)),
      [])"
    using answer_default [OF a]
    by (simp add: and_run_def on_customer_agent_finished_def say_answer_def Let_def)
  from 1 2 3 4 say_answer_once say_answer_flag show ?thesis by blast
qed

theorem flag_gates_chat_only_witness:
  "human_agent_present human_session \<and> \<not> asks_help ''my tooth hurts'' \<and>
   snd (on_message_received ''my tooth hurts'' human_session) = [] \<and>
   fst (check_appointment_status world_down ''bob@example.com'')
     = Inr (Str ''Error checking the dental appointment status.'') \<and>
   model_calls (fst (snd (run_task answer_helpdesk world_down (FollowUpTask ''bob@example.com'')
     human_session))) = 1"
proof -
  have a: "human_agent_present human_session" by (simp add: human_session_def)
  have b: "\<not> asks_help ''my tooth hurts''" by code_simp
  have c: "fst (check_appointment_status world_down ''bob@example.com'')
     = Inr (Str ''Error checking the dental appointment status.'')"
    by (rule check_appointment_status_down)
  have d: "answer_helpdesk = answer_helpdesk \<or> answer_helpdesk = answer_multi" by simp
  from a b c flag_gates_chat_only [OF d, of human_session "''my tooth hurts''" world_down
      "Str ''x''" False False "''bob@example.com''"]
  show ?thesis by simp
qed

text \<open>
  The claim as stated fails: with the flag set, the follow-up invokes the model, in both
  assistants, with a text that is no request for assistance.
\<close>

theorem follow_up_counterexample:
  "human_agent_present human_session \<and>
   \<not> asks_help ''Error checking the dental appointment status.'' \<and>
   model_calls (fst (snd (run_task answer_helpdesk world_down (FollowUpTask ''bob@example.com'')
     human_session))) = 1 \<and>
   model_calls (fst (snd (run_task answer_multi world_down (FollowUpTask ''bob@example.com'')
     human_session))) = 1"
proof -
  have 1: "human_agent_present human_session"
    by (simp add: human_session_def)
  have 2: "\<not> asks_help ''Error checking the dental appointment status.''"
    by code_simp
  have 3: "model_calls (fst (snd (run_task answer_helpdesk world_down
             (FollowUpTask ''bob@example.com'') human_session))) = 1"
    by (rule follow_up_counts(1) [OF _ check_appointment_status_down]) simp
  have 4: "model_calls (fst (snd (run_task answer_multi world_down
             (FollowUpTask ''bob@example.com'') human_session))) = 1"
    by (rule follow_up_counts(1) [OF _ check_appointment_status_down]) simp
  from 1 2 3 4 show ?thesis by blast
qed

section \<open>Facts about the HTTP boundary\<close>

lemma send_cases:
  "send w req =
     (case exchange w req of
        Raises \<Rightarrow> Inl RequestException
      | Response status b \<Rightarrow> if 400 \<le> status \<and> status < 600 then Inl RequestException else Inr b)"
  by (simp add: send_def raise_for_status_def split: http_outcome.splits)

lemma exchange_demo:
  "rurl req = Some u \<Longrightarrow> prefix ''https://'' u \<Longrightarrow>
   exchange (demo_world h sip) req =
     (case h req of
        Raises \<Rightarrow> Raises
      | Response status b \<Rightarrow> Response status (if no_body_status status then NotJson else b))"
  by (simp add: exchange_def demo_world_def)

lemma emergency_request_url:
  "rurl (emergency_request (demo_world h sip) slot email) = Some ''https://crm.example/appointments''"
  by (simp add: emergency_request_def demo_world_def fstr_def)



lemma exchange_empty_day:
  "exchange world_empty_day (slots_request world_empty_day urgency) =
     Response 200 (Json (JObj [(''2024-10-18'', JObj [(''slots'', JArr [])])]))"
  by (simp add: exchange_def slots_request_def Let_def world_empty_day_def demo_world_def
        fstr_def no_body_status_def split: prod.splits)

section \<open>Looking for appointment slots\<close>

text \<open>The window of the request: from now to now + 24 hours when \<open>urgency\<close> is \<open>emergency\<close>,
  from now + 3 days to now + 10 days for every other value.\<close>

lemma slot_window_values:
  "slot_window w ''emergency'' = (now w, now w + hours 24) \<and> hours 24 = days 1 \<and>
   (urgency \<noteq> ''emergency'' \<longrightarrow> slot_window w urgency = (now w + days 3, now w + days 10)) \<and>
   map_of (rparams (slots_request w urgency)) ''startDate''
     = Some (JNum (timestamp_ms w (fst (slot_window w urgency)))) \<and>
   map_of (rparams (slots_request w urgency)) ''endDate''
     = Some (JNum (timestamp_ms w (snd (slot_window w urgency))))"
  by (auto simp: slot_window_def hours_def days_def Let_def slots_request_def)

text \<open>
  C8, evaluated on the code. The server answers the request for the emergency window with
  200 and a body that lists one date whose list of slots is empty: a successful response
  with no slots. The body is not empty, so the code takes the first slot of the first
  date, and the \<open>IndexError\<close> of \<open>[0]\<close> leaves the function: the result is not the message
  \<open>No Slot Found\<close>. (With the body \<open>{}\<close> the result is that message, and with the network
  down it is \<open>None\<close>; one GET is made in each case.)
\<close>

theorem find_appointment_slots_empty_day:
  "slot_window world_empty_day ''emergency'' = (now world_empty_day, now world_empty_day + hours 24) \<and>
   snd (find_appointment_slots world_empty_day ''emergency'')
     = [slots_request world_empty_day ''emergency''] \<and>
   exchange world_empty_day (slots_request world_empty_day ''emergency'') =
     Response 200 (Json (JObj [(''2024-10-18'', JObj [(''slots'', JArr [])])])) \<and>
   fst (find_appointment_slots world_empty_day ''emergency'') = Inl IndexError \<and>
   fst (find_appointment_slots world_empty_object ''emergency'') = Inr (Str ''No Slot Found'') \<and>
   fst (find_appointment_slots world_down ''emergency'') = Inr PyNone"
proof -
  have 1: "slot_window world_empty_day ''emergency''
             = (now world_empty_day, now world_empty_day + hours 24)"
    by (simp add: slot_window_def Let_def)
  have 2: "snd (find_appointment_slots world_empty_day ''emergency'')
             = [slots_request world_empty_day ''emergency'']"
    by (simp add: find_appointment_slots_def Let_def)
  have 4: "fst (find_appointment_slots world_empty_day ''emergency'') = Inl IndexError"
    by (simp add: find_appointment_slots_def Let_def send_def exchange_empty_day
          raise_for_status_def response_json_def bind_def except_request_exception_def)
  have "exchange world_empty_object (slots_request world_empty_object ''emergency'') =
          Response 200 (Json (JObj []))"
    by (simp add: exchange_def slots_request_def Let_def world_empty_object_def demo_world_def
          fstr_def no_body_status_def split: prod.splits)
  hence 5: "fst (find_appointment_slots world_empty_object ''emergency'') = Inr (Str ''No Slot Found'')"
    by (simp add: find_appointment_slots_def Let_def send_def
          raise_for_status_def response_json_def bind_def except_request_exception_def)
  have 6: "fst (find_appointment_slots world_down ''emergency'') = Inr PyNone"
    by (simp add: find_appointment_slots_def Let_def send_world_down bind_def
          except_request_exception_def)
  from 1 2 exchange_empty_day 4 5 6 show ?thesis by blast
qed

section \<open>What a callable function hands back\<close>





section \<open>Booking an emergency appointment\<close>

text \<open>
  C7, as the code has it. \<open>book_emergency_appointment\<close> makes one POST. If the response has a
  status outside 400..599 (every 2xx among them) and a body that decodes as JSON, the
  result is the escalation value, whatever the slot. If the request raises, the status
  is in 400..599, or the body is empty or no JSON text, the result is the generic error
  message.
\<close>

theorem book_emergency_appointment_result:
  "snd (book_emergency_appointment w slot email) = [emergency_request w slot email] \<and>
   rmethod (emergency_request w slot email) = POST \<and>
   (\<forall>status j.
      exchange w (emergency_request w slot email) = Response status (Json j) \<and>
      \<not> (400 \<le> status \<and> status < 600) \<longrightarrow>
      fst (book_emergency_appointment w slot email) = Inr (Str ''call_human_agent'')) \<and>
   (http_error (exchange w (emergency_request w slot email)) \<or>
    undecodable (exchange w (emergency_request w slot email)) \<longrightarrow>
      fst (book_emergency_appointment w slot email) =
        Inr (Str ''There was an error booking your emergency appointment. Please try again later.''))"
  by (auto simp: book_emergency_appointment_def Let_def emergency_request_def http_error_def
        undecodable_def send_cases bind_def except_request_exception_def response_json_def
        raise_for_status_def split: http_outcome.splits)

theorem book_emergency_appointment_result_witness:
  "exchange world_empty_object (emergency_request world_empty_object ''2024-10-17T03:30:00+01:00''
     ''bob@example.com'') = Response 200 (Json (JObj [])) \<and>
   fst (book_emergency_appointment world_empty_object ''2024-10-17T03:30:00+01:00'' ''bob@example.com'')
     = Inr (Str ''call_human_agent'') \<and>
   http_error (exchange world_down (emergency_request world_down ''2024-10-17T03:30:00+01:00''
     ''bob@example.com'')) \<and>
   fst (book_emergency_appointment world_down ''2024-10-17T03:30:00+01:00'' ''bob@example.com'')
     = Inr (Str ''There was an error booking your emergency appointment. Please try again later.'')"
proof -
  have a: "exchange world_empty_object (emergency_request world_empty_object
             ''2024-10-17T03:30:00+01:00'' ''bob@example.com'') = Response 200 (Json (JObj []))"
    unfolding world_empty_object_def
    by (simp add: exchange_demo [OF emergency_request_url] no_body_status_def)
  have b: "http_error (exchange world_down (emergency_request world_down
             ''2024-10-17T03:30:00+01:00'' ''bob@example.com''))"
    unfolding world_down_def
    by (simp add: exchange_demo [OF emergency_request_url] http_error_def)
  from a b
    book_emergency_appointment_result [of world_empty_object "''2024-10-17T03:30:00+01:00''"
      "''bob@example.com''"]
    book_emergency_appointment_result [of world_down "''2024-10-17T03:30:00+01:00''"
      "''bob@example.com''"]
  show ?thesis by simp
qed

text \<open>
  The claim as stated fails on both sides: a 204 response, which has no body, is a 2xx
  success, yet the result is the error message; a 300 response with a JSON body is not
  2xx, yet the result is the escalation value.
\<close>

theorem book_emergency_appointment_counterexample:
  "exchange world_no_content (emergency_request world_no_content ''2024-10-17T03:30:00+01:00''
     ''bob@example.com'') = Response 204 NotJson \<and>
   fst (book_emergency_appointment world_no_content ''2024-10-17T03:30:00+01:00'' ''bob@example.com'')
     = Inr (Str ''There was an error booking your emergency appointment. Please try again later.'') \<and>
   exchange world_multiple_choices (emergency_request world_multiple_choices
     ''2024-10-17T03:30:00+01:00'' ''bob@example.com'') = Response 300 (Json (JObj [])) \<and>
   fst (book_emergency_appointment world_multiple_choices ''2024-10-17T03:30:00+01:00''
     ''bob@example.com'') = Inr (Str ''call_human_agent'')"
proof -
  have a: "exchange world_no_content (emergency_request world_no_content
             ''2024-10-17T03:30:00+01:00'' ''bob@example.com'') = Response 204 NotJson"
    unfolding world_no_content_def
    by (simp add: exchange_demo [OF emergency_request_url])
  have b: "exchange world_multiple_choices (emergency_request world_multiple_choices
             ''2024-10-17T03:30:00+01:00'' ''bob@example.com'') = Response 300 (Json (JObj []))"
    unfolding world_multiple_choices_def
    by (simp add: exchange_demo [OF emergency_request_url] no_body_status_def)
  from a have c: "fst (book_emergency_appointment world_no_content ''2024-10-17T03:30:00+01:00''
      ''bob@example.com'')
     = Inr (Str ''There was an error booking your emergency appointment. Please try again later.'')"
    by (simp add: book_emergency_appointment_def Let_def send_cases bind_def
          except_request_exception_def response_json_def)
  from b have d: "fst (book_emergency_appointment world_multiple_choices
      ''2024-10-17T03:30:00+01:00'' ''bob@example.com'') = Inr (Str ''call_human_agent'')"
    by (simp add: book_emergency_appointment_def Let_def send_cases bind_def
          except_request_exception_def response_json_def)
  from a b c d show ?thesis by blast
qed

end
